theory Spec2Isabelle
  imports Complex_Main "HOL-Library.Sublist"
begin

section \<open>The Go library functions used by metrics.go\<close>

text \<open>
  Go strings are byte sequences; they are modelled as \<open>string\<close> (a list of 8-bit
  characters). The functions below are the ones of package \<open>strings\<close> that
  \<open>metrics.go\<close> calls, written at the byte level.
\<close>

text \<open>
  \<open>unicode.IsSpace\<close>: the UTF-8 encodings of the code points with the White_Space
  property (tab, LF, VT, FF, CR, space, U+0085, U+00A0, U+1680, U+2000 to U+200A, U+2028,
  U+2029, U+202F, U+205F, U+3000).
\<close>

definition spaceRunes :: "string list" where
  "spaceRunes =
    [[CHR 0x09], [CHR 0x0A], [CHR 0x0B], [CHR 0x0C], [CHR 0x0D], [CHR 0x20],
     [CHR 0xC2, CHR 0x85], [CHR 0xC2, CHR 0xA0], [CHR 0xE1, CHR 0x9A, CHR 0x80],
     [CHR 0xE2, CHR 0x80, CHR 0x80], [CHR 0xE2, CHR 0x80, CHR 0x81],
     [CHR 0xE2, CHR 0x80, CHR 0x82], [CHR 0xE2, CHR 0x80, CHR 0x83],
     [CHR 0xE2, CHR 0x80, CHR 0x84], [CHR 0xE2, CHR 0x80, CHR 0x85],
     [CHR 0xE2, CHR 0x80, CHR 0x86], [CHR 0xE2, CHR 0x80, CHR 0x87],
     [CHR 0xE2, CHR 0x80, CHR 0x88], [CHR 0xE2, CHR 0x80, CHR 0x89],
     [CHR 0xE2, CHR 0x80, CHR 0x8A], [CHR 0xE2, CHR 0x80, CHR 0xA8],
     [CHR 0xE2, CHR 0x80, CHR 0xA9], [CHR 0xE2, CHR 0x80, CHR 0xAF],
     [CHR 0xE2, CHR 0x81, CHR 0x9F], [CHR 0xE3, CHR 0x80, CHR 0x80]]"

text \<open>The number of bytes of the white-space rune at the head (at the end) of a string,
  0 when there is none.\<close>

definition leadSpace :: "string \<Rightarrow> nat" where
  "leadSpace s = (case find (\<lambda>r. prefix r s) spaceRunes of None \<Rightarrow> 0 | Some r \<Rightarrow> length r)"

definition trailSpace :: "string \<Rightarrow> nat" where
  "trailSpace s = (case find (\<lambda>r. suffix r s) spaceRunes of None \<Rightarrow> 0 | Some r \<Rightarrow> length r)"

function TrimLeftSpace :: "string \<Rightarrow> string" where
  "TrimLeftSpace s = (if leadSpace s = 0 then s else TrimLeftSpace (drop (leadSpace s) s))"
  by pat_completeness auto
termination
proof (relation "measure length")
  fix s :: string
  assume "leadSpace s \<noteq> 0"
  moreover have "leadSpace s \<le> length s"
    by (auto simp: leadSpace_def find_Some_iff prefix_length_le split: option.splits)
  ultimately show "(drop (leadSpace s) s, s) \<in> measure length" by simp
qed simp

declare TrimLeftSpace.simps [simp del]

function TrimRightSpace :: "string \<Rightarrow> string" where
  "TrimRightSpace s =
     (if trailSpace s = 0 then s else TrimRightSpace (take (length s - trailSpace s) s))"
  by pat_completeness auto
termination
proof (relation "measure length")
  fix s :: string
  assume "trailSpace s \<noteq> 0"
  moreover have "trailSpace s \<le> length s"
    by (auto simp: trailSpace_def find_Some_iff suffix_length_le split: option.splits)
  ultimately show "(take (length s - trailSpace s) s, s) \<in> measure length" by simp
qed simp

declare TrimRightSpace.simps [simp del]

text \<open>\<open>strings.TrimSpace\<close>: leading white space is removed first, then trailing.\<close>

definition TrimSpace :: "string \<Rightarrow> string" where
  "TrimSpace s = TrimRightSpace (TrimLeftSpace s)"

text \<open>\<open>strings.Fields\<close>: the maximal runs of bytes between white space; \<open>cur\<close> is
  the field being read.\<close>

function FieldsFrom :: "string \<Rightarrow> string \<Rightarrow> string list" where
  "FieldsFrom cur s =
     (case s of
        [] \<Rightarrow> (if cur = [] then [] else [cur])
      | c # cs \<Rightarrow>
          (if leadSpace s = 0 then FieldsFrom (cur @ [c]) cs
           else (if cur = [] then [] else [cur]) @ FieldsFrom [] (drop (leadSpace s) s)))"
  by pat_completeness auto
termination
proof (relation "measure (\<lambda>(cur, s). length s)")
  fix cur s :: string and c cs
  assume "s = c # cs" "leadSpace s \<noteq> 0"
  moreover have "leadSpace s \<le> length s"
    by (auto simp: leadSpace_def find_Some_iff prefix_length_le split: option.splits)
  ultimately show "(([], drop (leadSpace s) s), (cur, s)) \<in> measure (\<lambda>(cur, s). length s)"
    by simp
qed simp_all

declare FieldsFrom.simps [simp del]

definition Fields :: "string \<Rightarrow> string list" where
  "Fields s = FieldsFrom [] s"

text \<open>\<open>strings.Split(s, sep)\<close> for a non-empty separator: the pieces between the
  leftmost non-overlapping occurrences of \<open>sep\<close>; always at least one piece.
  (\<open>metrics.go\<close> never splits on the empty separator; the model returns the whole
  string as one piece there.)\<close>

function SplitFrom :: "string \<Rightarrow> string \<Rightarrow> string \<Rightarrow> string list" where
  "SplitFrom sep cur s =
     (case s of
        [] \<Rightarrow> [cur]
      | c # cs \<Rightarrow>
          (if sep \<noteq> [] \<and> prefix sep s then cur # SplitFrom sep [] (drop (length sep) s)
           else SplitFrom sep (cur @ [c]) cs))"
  by pat_completeness auto
termination
  by (relation "measure (\<lambda>(sep, cur, s). length s)") auto

declare SplitFrom.simps [simp del]

definition Split :: "string \<Rightarrow> string \<Rightarrow> string list" where
  "Split s sep = SplitFrom sep [] s"

text \<open>\<open>strings.Trim(s, cutset)\<close> for a cutset of ASCII characters: leading and
  trailing bytes that occur in the cutset are removed.\<close>

definition Trim :: "string \<Rightarrow> string \<Rightarrow> string" where
  "Trim s cutset =
     rev (dropWhile (\<lambda>c. c \<in> set cutset) (rev (dropWhile (\<lambda>c. c \<in> set cutset) s)))"

definition HasPrefix :: "string \<Rightarrow> string \<Rightarrow> bool" where
  "HasPrefix s p = prefix p s"

definition TrimPrefix :: "string \<Rightarrow> string \<Rightarrow> string" where
  "TrimPrefix s p = (if prefix p s then drop (length p) s else s)"

section \<open>The host and the metric registry\<close>

text \<open>
  \<open>strconv.ParseFloat(s, 64)\<close> belongs to the Go standard library, not to this
  repository. The development is parametric in it: every function that parses a number
  takes the parser \<open>pf\<close> as its first argument, \<open>pf s = None\<close> standing for a
  non-nil error. A \<open>float64\<close> is represented by the real number it denotes: rounding
  and the values that are not finite are outside the model (the product of a finite
  \<open>float64\<close> by 1024 is exact unless it overflows).
\<close>

type_synonym float64 = real

text \<open>
  What the program reads from its host in one collection cycle:
  \<^item> \<open>gpuInfoCmd\<close>, \<open>computeAppsCmd\<close>: the result of \<open>Output()\<close> on the two
    \<open>nvidia-smi\<close> commands, \<open>None\<close> when \<open>err != nil\<close>;
  \<^item> \<open>dirs p\<close>: the names \<open>os.Open(p)\<close> followed by \<open>Readdirnames(-1)\<close> yields,
    \<open>None\<close> when either call fails;
  \<^item> \<open>files p\<close>: the file at path \<open>p\<close>.
  The host is one snapshot for the whole cycle. Directory entry names contain no
  \<open>/\<close>, so \<open>filepath.Join\<close> is concatenation with \<open>/\<close>.
\<close>

datatype fileNode =
    NoFile         \<comment> \<open>the file cannot be opened (absent, or access denied)\<close>
  | ReadErr        \<comment> \<open>the file opens, reading it fails\<close>
  | Data string    \<comment> \<open>the file opens and reads as this content\<close>

record host =
  gpuInfoCmd :: "string option"
  computeAppsCmd :: "string option"
  dirs :: "string \<Rightarrow> string list option"
  files :: "string \<Rightarrow> fileNode"

text \<open>
  The four \<open>GaugeVec\<close> globals. Each has two labels; a child is addressed by its pair
  of label values in the declared order (\<open>gpu_id, job_id\<close> and \<open>pid, job_id\<close>), and
  \<open>With(labels).Set(v)\<close> creates or overwrites it. Label values are taken to be valid
  UTF-8, which the client library requires of them.
\<close>

type_synonym gaugeVec = "string \<times> string \<rightharpoonup> float64"

record registry =
  gpuUtilizationMetric :: gaugeVec
  gpuMemoryUsageMetric :: gaugeVec
  ioReadBytesMetric :: gaugeVec
  ioWriteBytesMetric :: gaugeVec

text \<open>\<open>init()\<close>: every vector is seeded with the child \<open>none, none\<close> at 0.\<close>

definition init :: registry where
  "init =
     \<lparr>gpuUtilizationMetric = [(''none'', ''none'') \<mapsto> 0],
      gpuMemoryUsageMetric = [(''none'', ''none'') \<mapsto> 0],
      ioReadBytesMetric = [(''none'', ''none'') \<mapsto> 0],
      ioWriteBytesMetric = [(''none'', ''none'') \<mapsto> 0]\<rparr>"

section \<open>getJobIDFromPID\<close>

definition basePath :: string where
  "basePath = ''/sys/fs/cgroup/cpu/slurm''"

text \<open>
  \<open>bufio.Scanner\<close> with the default split function \<open>ScanLines\<close>: the lines of the
  content, each without its line end (LF, or CR LF); no line after a final LF.
  \<open>rawLines\<close> still carry the CR. A line of \<open>MaxScanTokenSize\<close> bytes or more stops
  the scan with \<open>ErrTooLong\<close>.
\<close>

definition MaxScanTokenSize :: nat where
  "MaxScanTokenSize = 64 * 1024"

definition rawLines :: "string \<Rightarrow> string list" where
  "rawLines content =
     (let ls = Split content [CHR 0x0A] in if last ls = [] then butlast ls else ls)"

definition dropCR :: "string \<Rightarrow> string" where
  "dropCR l = (if l \<noteq> [] \<and> last l = CHR 0x0D then butlast l else l)"

datatype scan = Found | ScanFailed | Exhausted

text \<open>The loop \<open>for scanner.Scan() { if line == pid { return } }\<close> and the test of
  \<open>scanner.Err()\<close> after it.\<close>

fun scanFor :: "string \<Rightarrow> string list \<Rightarrow> scan" where
  "scanFor pid [] = Exhausted"
| "scanFor pid (l # ls) =
     (if MaxScanTokenSize \<le> length l then ScanFailed
      else if dropCR l = pid then Found
      else scanFor pid ls)"

datatype error = BaseDirFailed | ScanError | JobNotFound

text \<open>The loop over the job entries of one uid directory. \<open>None\<close>: the loop ran to
  its end; \<open>Some r\<close>: the function returned \<open>r\<close> from inside the loop.\<close>

fun searchJobs :: "host \<Rightarrow> string \<Rightarrow> string \<Rightarrow> string list \<Rightarrow> (error + string) option" where
  "searchJobs h pid uidPath [] = None"
| "searchJobs h pid uidPath (jobEntry # rest) =
     (if HasPrefix jobEntry ''job_'' then
        (case files h (uidPath @ ''/'' @ jobEntry @ ''/cgroup.procs'') of
           NoFile \<Rightarrow> searchJobs h pid uidPath rest
         | ReadErr \<Rightarrow> Some (Inl ScanError)
         | Data content \<Rightarrow>
             (case scanFor pid (rawLines content) of
                Found \<Rightarrow> Some (Inr (TrimPrefix jobEntry ''job_''))
              | ScanFailed \<Rightarrow> Some (Inl ScanError)
              | Exhausted \<Rightarrow> searchJobs h pid uidPath rest))
      else searchJobs h pid uidPath rest)"

text \<open>The loop over the entries of the base directory.\<close>

fun searchUids :: "host \<Rightarrow> string \<Rightarrow> string list \<Rightarrow> (error + string) option" where
  "searchUids h pid [] = None"
| "searchUids h pid (entry # rest) =
     (if HasPrefix entry ''uid_'' then
        (case dirs h (basePath @ ''/'' @ entry) of
           None \<Rightarrow> searchUids h pid rest
         | Some jobEntries \<Rightarrow>
             (case searchJobs h pid (basePath @ ''/'' @ entry) jobEntries of
                None \<Rightarrow> searchUids h pid rest
              | Some r \<Rightarrow> Some r))
      else searchUids h pid rest)"

definition getJobIDFromPID :: "host \<Rightarrow> string \<Rightarrow> error + string" where
  "getJobIDFromPID h pid =
     (case dirs h basePath of
        None \<Rightarrow> Inl BaseDirFailed
      | Some entries \<Rightarrow>
          (case searchUids h pid entries of
             None \<Rightarrow> Inl JobNotFound
           | Some r \<Rightarrow> r))"

section \<open>collectGPUMetrics\<close>

text \<open>The first loop: the map from device UUID to device index.\<close>

fun gpuUUIDToIndex :: "(string \<rightharpoonup> string) \<Rightarrow> string list \<Rightarrow> (string \<rightharpoonup> string)" where
  "gpuUUIDToIndex m [] = m"
| "gpuUUIDToIndex m (line # rest) =
     (let parts = Split line '', '' in
      if length parts = 4 then gpuUUIDToIndex (m(parts ! 0 \<mapsto> parts ! 1)) rest
      else gpuUUIDToIndex m rest)"

text \<open>The body of the second loop, for one line of the compute-apps output.\<close>

definition computeAppsLine ::
  "(string \<Rightarrow> float64 option) \<Rightarrow> host \<Rightarrow> (string \<rightharpoonup> string) \<Rightarrow> registry \<Rightarrow> string \<Rightarrow> registry" where
  "computeAppsLine pf h idx reg line =
     (let parts = Split line '', '' in
      if length parts = 3 then
        (let pid = parts ! 0 in
         case pf (Trim (parts ! 1) '' MiB'') of
           None \<Rightarrow> reg
         | Some usedMemory \<Rightarrow>
             (let uuid = parts ! 2 in
              case idx uuid of
                None \<Rightarrow> reg
              | Some index \<Rightarrow>
                  (case getJobIDFromPID h pid of
                     Inl err \<Rightarrow> reg
                   | Inr jobID \<Rightarrow>
                       reg\<lparr>gpuMemoryUsageMetric :=
                         (gpuMemoryUsageMetric reg)((index, jobID) \<mapsto> usedMemory * 1024 * 1024)\<rparr>)))
      else reg)"

definition outputLines :: "string \<Rightarrow> string list" where
  "outputLines out = Split (TrimSpace out) [CHR 0x0A]"

definition collectGPUMetrics ::
  "(string \<Rightarrow> float64 option) \<Rightarrow> host \<Rightarrow> registry \<Rightarrow> registry" where
  "collectGPUMetrics pf h reg =
     (case gpuInfoCmd h of
        None \<Rightarrow> reg
      | Some gpuInfoOutput \<Rightarrow>
          (case computeAppsCmd h of
             None \<Rightarrow> reg
           | Some computeAppsOutput \<Rightarrow>
               foldl (computeAppsLine pf h (gpuUUIDToIndex Map.empty (outputLines gpuInfoOutput)))
                 reg (outputLines computeAppsOutput)))"

section \<open>collectIOMetrics\<close>

text \<open>The body of the innermost loop, for one line of \<open>/proc/<pid>/io\<close>.\<close>

definition ioLine ::
  "(string \<Rightarrow> float64 option) \<Rightarrow> string \<Rightarrow> string \<Rightarrow> registry \<Rightarrow> string \<Rightarrow> registry" where
  "ioLine pf pid jobEntry reg line =
     (let parts = Split line '':'' in
      if length parts = 2 then
        (let key = TrimSpace (parts ! 0) in
         case pf (TrimSpace (parts ! 1)) of
           None \<Rightarrow> reg
         | Some v \<Rightarrow>
             if key = ''read_bytes'' then
               reg\<lparr>ioReadBytesMetric := (ioReadBytesMetric reg)((pid, jobEntry) \<mapsto> v)\<rparr>
             else if key = ''write_bytes'' then
               reg\<lparr>ioWriteBytesMetric := (ioWriteBytesMetric reg)((pid, jobEntry) \<mapsto> v)\<rparr>
             else reg)
      else reg)"

text \<open>The body of the loop over the PIDs of one job.\<close>

definition ioPid ::
  "(string \<Rightarrow> float64 option) \<Rightarrow> host \<Rightarrow> string \<Rightarrow> registry \<Rightarrow> string \<Rightarrow> registry" where
  "ioPid pf h jobEntry reg pid =
     (case files h (''/proc/'' @ pid @ ''/io'') of
        Data content \<Rightarrow> foldl (ioLine pf pid jobEntry) reg (Split content [CHR 0x0A])
      | _ \<Rightarrow> reg)"

text \<open>The body of the loop over the job entries of one uid directory.\<close>

definition ioJob ::
  "(string \<Rightarrow> float64 option) \<Rightarrow> host \<Rightarrow> string \<Rightarrow> registry \<Rightarrow> string \<Rightarrow> registry" where
  "ioJob pf h uidPath reg jobEntry =
     (if HasPrefix jobEntry ''job_'' then
        (case files h (uidPath @ ''/'' @ jobEntry @ ''/cgroup.procs'') of
           Data pids \<Rightarrow>
             if length (Fields pids) = 0 then
               reg\<lparr>ioReadBytesMetric := (ioReadBytesMetric reg)((''none'', jobEntry) \<mapsto> 0),
                   ioWriteBytesMetric := (ioWriteBytesMetric reg)((''none'', jobEntry) \<mapsto> 0)\<rparr>
             else foldl (ioPid pf h jobEntry) reg (Fields pids)
         | _ \<Rightarrow> reg)
      else reg)"

text \<open>The body of the loop over the entries of the base directory.\<close>

definition ioUid ::
  "(string \<Rightarrow> float64 option) \<Rightarrow> host \<Rightarrow> registry \<Rightarrow> string \<Rightarrow> registry" where
  "ioUid pf h reg entry =
     (if HasPrefix entry ''uid_'' then
        (case dirs h (basePath @ ''/'' @ entry) of
           None \<Rightarrow> reg
         | Some jobEntries \<Rightarrow> foldl (ioJob pf h (basePath @ ''/'' @ entry)) reg jobEntries)
      else reg)"

definition collectIOMetrics ::
  "(string \<Rightarrow> float64 option) \<Rightarrow> host \<Rightarrow> registry \<Rightarrow> registry" where
  "collectIOMetrics pf h reg =
     (case dirs h basePath of
        None \<Rightarrow> reg
      | Some entries \<Rightarrow> foldl (ioUid pf h) reg entries)"

section \<open>One tick of the sampling loop\<close>

text \<open>The body of the \<open>select\<close> in \<open>main\<close>: one collection cycle.\<close>

definition tick :: "(string \<Rightarrow> float64 option) \<Rightarrow> host \<Rightarrow> registry \<Rightarrow> registry" where
  "tick pf h reg = collectIOMetrics pf h (collectGPUMetrics pf h reg)"

text \<open>The ticker loop of \<open>main\<close> runs for ever; \<open>ticks\<close> is a finite run of it, one
  host snapshot for each tick.\<close>

definition ticks :: "(string \<Rightarrow> float64 option) \<Rightarrow> registry \<Rightarrow> host list \<Rightarrow> registry" where
  "ticks pf reg hs = foldl (\<lambda>r h. tick pf h r) reg hs"

text \<open>The label pairs present in the two I/O vectors, tagged \<open>True\<close> for
  \<open>io_read_bytes\<close> and \<open>False\<close> for \<open>io_write_bytes\<close>.\<close>

definition ioKeys :: "registry \<Rightarrow> (bool \<times> string \<times> string) set" where
  "ioKeys reg = Pair True ` dom (ioReadBytesMetric reg) \<union> Pair False ` dom (ioWriteBytesMetric reg)"

section \<open>The join by UUID, as the specification words it\<close>

text \<open>
  The specification joins the two query results by device identity: the device index of
  a process-memory row is the index of the device row with the same UUID. \<open>deviceRows\<close>
  are the (UUID, index) pairs of the four-field rows of the per-device output, and
  \<open>deviceIndex\<close> looks a UUID up there; where several rows carry one UUID the last
  one counts.
\<close>

definition deviceRows :: "string list \<Rightarrow> (string \<times> string) list" where
  "deviceRows lines =
     map (\<lambda>parts. (parts ! 0, parts ! 1))
       (filter (\<lambda>parts. length parts = 4) (map (\<lambda>line. Split line '', '') lines))"

definition deviceIndex :: "string list \<Rightarrow> string \<Rightarrow> string option" where
  "deviceIndex lines uuid = map_of (rev (deviceRows lines)) uuid"

section \<open>Sample inputs\<close>

text \<open>
  A parser to put in the place of \<open>strconv.ParseFloat\<close> at concrete inputs: it accepts
  the non-empty strings of decimal digits, with their value, and nothing else. On the
  digit strings used below \<open>strconv.ParseFloat\<close> returns the same value.
\<close>

definition digitVal :: "char \<Rightarrow> float64 option" where
  "digitVal c = map_of (zip ''0123456789'' [0, 1, 2, 3, 4, 5, 6, 7, 8, 9]) c"

definition parseDigits :: "string \<Rightarrow> float64 option" where
  "parseDigits s =
     (if s = [] then None
      else foldl (\<lambda>acc c. case acc of None \<Rightarrow> None
                   | Some n \<Rightarrow> (case digitVal c of None \<Rightarrow> None | Some d \<Rightarrow> Some (10 * n + d)))
             (Some 0) s)"

text \<open>The two query outputs of the example of the specification, as \<open>nvidia-smi\<close>
  prints them (a line end after the row).\<close>

definition exampleGpuRow :: string where
  "exampleGpuRow = ''gpu-uuid-1, 0, '' @ [CHR 0x22] @ ''GPUX'' @ [CHR 0x22] @ '', 37''"

definition exampleAppRow :: string where
  "exampleAppRow = ''1234, 512 MiB, gpu-uuid-1''"

definition exampleGpuInfo :: string where
  "exampleGpuInfo = exampleGpuRow @ ''\<newline>''"

definition exampleComputeApps :: string where
  "exampleComputeApps = exampleAppRow @ ''\<newline>''"

text \<open>A host with one device, one job \<open>job_42\<close> of user 1000, and the process 1234 in
  that job using the device.\<close>

definition exampleHost :: host where
  "exampleHost =
     \<lparr>gpuInfoCmd = Some exampleGpuInfo,
      computeAppsCmd = Some exampleComputeApps,
      dirs = (\<lambda>p. if p = ''/sys/fs/cgroup/cpu/slurm'' then Some [''uid_1000'']
                  else if p = ''/sys/fs/cgroup/cpu/slurm/uid_1000'' then Some [''job_42'']
                  else None),
      files = (\<lambda>p. if p = ''/sys/fs/cgroup/cpu/slurm/uid_1000/job_42/cgroup.procs''
                    then Data ''1234\<newline>''
                  else if p = ''/proc/1234/io''
                    then Data ''rchar: 100\<newline>read_bytes: 4096\<newline>write_bytes: 0''
                  else NoFile)\<rparr>"


text \<open>The example host, with process 1234 in no job: the only job holds process 999.\<close>

definition orphanHost :: host where
  "orphanHost =
     exampleHost\<lparr>files :=
       (\<lambda>p. if p = ''/sys/fs/cgroup/cpu/slurm/uid_1000/job_42/cgroup.procs''
               then Data ''999\<newline>'' else NoFile)\<rparr>"

text \<open>A compute-apps output with a row that does not parse between two that do, and the
  same output without that row.\<close>

definition noisyComputeApps :: string where
  "noisyComputeApps =
     ''1234, 512 MiB, gpu-uuid-1\<newline>77, [N/A], gpu-uuid-1\<newline>1234, 256 MiB, gpu-uuid-1\<newline>''"

definition cleanComputeApps :: string where
  "cleanComputeApps = ''1234, 512 MiB, gpu-uuid-1\<newline>1234, 256 MiB, gpu-uuid-1\<newline>''"

text \<open>A host whose only job, \<open>job_7\<close> of user 1000, has an empty \<open>cgroup.procs\<close>.\<close>

definition emptyJobHost :: host where
  "emptyJobHost =
     \<lparr>gpuInfoCmd = None,
      computeAppsCmd = None,
      dirs = (\<lambda>p. if p = ''/sys/fs/cgroup/cpu/slurm'' then Some [''uid_1000'']
                  else if p = ''/sys/fs/cgroup/cpu/slurm/uid_1000'' then Some [''job_7'']
                  else None),
      files = (\<lambda>p. if p = ''/sys/fs/cgroup/cpu/slurm/uid_1000/job_7/cgroup.procs''
                    then Data [] else NoFile)\<rparr>"

text \<open>A compute-apps output whose only row does not parse.\<close>

definition onlyBadComputeApps :: string where
  "onlyBadComputeApps = ''77, [N/A], gpu-uuid-1\<newline>''"

text \<open>A per-device output whose row has four fields, with \<open>[N/A]\<close> in the place of the
  index and of the utilization, and the example host with that output.\<close>

definition naGpuRow :: string where
  "naGpuRow = ''gpu-uuid-1, [N/A], '' @ [CHR 0x22] @ ''GPUX'' @ [CHR 0x22] @ '', [N/A]''"

definition naHost :: host where
  "naHost = exampleHost\<lparr>gpuInfoCmd := Some (naGpuRow @ ''\<newline>'')\<rparr>"

section \<open>What a collection cycle leaves alone\<close>

lemma foldl_preserves: "(\<And>r x. g (f r x) = g r) \<Longrightarrow> g (foldl f r xs) = g r"
  by (induction xs arbitrary: r) simp_all

lemma ioLine_gpu:
  "gpuMemoryUsageMetric (ioLine pf pid j reg line) = gpuMemoryUsageMetric reg"
  "gpuUtilizationMetric (ioLine pf pid j reg line) = gpuUtilizationMetric reg"
  by (simp_all add: ioLine_def Let_def split: option.splits)

lemma ioPid_gpu:
  "gpuMemoryUsageMetric (ioPid pf h j reg pid) = gpuMemoryUsageMetric reg"
  "gpuUtilizationMetric (ioPid pf h j reg pid) = gpuUtilizationMetric reg"
  by (simp_all add: ioPid_def foldl_preserves ioLine_gpu split: fileNode.splits)

lemma ioJob_gpu:
  "gpuMemoryUsageMetric (ioJob pf h u reg j) = gpuMemoryUsageMetric reg"
  "gpuUtilizationMetric (ioJob pf h u reg j) = gpuUtilizationMetric reg"
  by (simp_all add: ioJob_def foldl_preserves ioPid_gpu split: fileNode.splits)

lemma ioUid_gpu:
  "gpuMemoryUsageMetric (ioUid pf h reg e) = gpuMemoryUsageMetric reg"
  "gpuUtilizationMetric (ioUid pf h reg e) = gpuUtilizationMetric reg"
  by (simp_all add: ioUid_def foldl_preserves ioJob_gpu split: option.splits)

lemma collectIOMetrics_gpu:
  "gpuMemoryUsageMetric (collectIOMetrics pf h reg) = gpuMemoryUsageMetric reg"
  "gpuUtilizationMetric (collectIOMetrics pf h reg) = gpuUtilizationMetric reg"
  by (simp_all add: collectIOMetrics_def foldl_preserves ioUid_gpu split: option.splits)

lemma computeAppsLine_util:
  "gpuUtilizationMetric (computeAppsLine pf h idx reg line) = gpuUtilizationMetric reg"
  by (simp add: computeAppsLine_def Let_def split: option.splits sum.splits)

lemma collectGPUMetrics_util:
  "gpuUtilizationMetric (collectGPUMetrics pf h reg) = gpuUtilizationMetric reg"
  by (simp add: collectGPUMetrics_def foldl_preserves computeAppsLine_util split: option.splits)

lemma tick_util: "gpuUtilizationMetric (tick pf h reg) = gpuUtilizationMetric reg"
  by (simp add: tick_def collectIOMetrics_gpu collectGPUMetrics_util)

lemma ticks_util: "gpuUtilizationMetric (ticks pf reg hs) = gpuUtilizationMetric reg"
  unfolding ticks_def by (induction hs arbitrary: reg) (simp_all add: tick_util)

lemma init_util: "gpuUtilizationMetric init = [(''none'', ''none'') \<mapsto> 0]"
  unfolding init_def by (rule registry.select_convs)

lemma collectGPUMetrics_failed:
  assumes "gpuInfoCmd h = None \<or> computeAppsCmd h = None"
  shows "collectGPUMetrics pf h reg = reg"
  using assms by (auto simp: collectGPUMetrics_def split: option.splits)

lemma ticks_failed:
  assumes "\<forall>h \<in> set hs. gpuInfoCmd h = None \<or> computeAppsCmd h = None"
  shows "gpuMemoryUsageMetric (ticks pf reg hs) = gpuMemoryUsageMetric reg"
  using assms
proof (induction hs arbitrary: reg)
  case Nil
  show ?case by (simp add: ticks_def)
next
  case (Cons h hs)
  then have "gpuMemoryUsageMetric (ticks pf (tick pf h reg) hs) = gpuMemoryUsageMetric (tick pf h reg)"
    by simp
  moreover have "gpuMemoryUsageMetric (tick pf h reg) = gpuMemoryUsageMetric reg"
    using Cons.prems by (simp add: tick_def collectIOMetrics_gpu collectGPUMetrics_failed)
  ultimately show ?case by (simp add: ticks_def)
qed

text \<open>
  Claim C8. If either of the two \<open>nvidia-smi\<close> queries fails, \<open>collectGPUMetrics\<close>
  returns before any metric is written: the registry is unchanged by it, and after the
  whole cycle (the I/O pass included) every GPU memory and GPU utilization value is the
  one published before. The GPU memory values stay as they were through any run of
  cycles in each of which a query fails.
\<close>

theorem failed_query_publishes_nothing:
  assumes "gpuInfoCmd h = None \<or> computeAppsCmd h = None"
    and "\<forall>h' \<in> set hs. gpuInfoCmd h' = None \<or> computeAppsCmd h' = None"
  shows "collectGPUMetrics pf h reg = reg
    \<and> gpuMemoryUsageMetric (tick pf h reg) = gpuMemoryUsageMetric reg
    \<and> gpuUtilizationMetric (tick pf h reg) = gpuUtilizationMetric reg
    \<and> gpuMemoryUsageMetric (ticks pf reg hs) = gpuMemoryUsageMetric reg"
  using assms
  by (simp add: collectGPUMetrics_failed tick_def collectIOMetrics_gpu ticks_failed)

theorem failed_query_publishes_nothing_witness:
  "collectGPUMetrics parseDigits (exampleHost\<lparr>gpuInfoCmd := None\<rparr>) init = init
    \<and> gpuMemoryUsageMetric (tick parseDigits (exampleHost\<lparr>gpuInfoCmd := None\<rparr>) init)
        = gpuMemoryUsageMetric init
    \<and> gpuUtilizationMetric (tick parseDigits (exampleHost\<lparr>gpuInfoCmd := None\<rparr>) init)
        = gpuUtilizationMetric init
    \<and> gpuMemoryUsageMetric (ticks parseDigits init
          [exampleHost\<lparr>gpuInfoCmd := None\<rparr>, exampleHost\<lparr>computeAppsCmd := None\<rparr>])
        = gpuMemoryUsageMetric init"
  using failed_query_publishes_nothing [of "exampleHost\<lparr>gpuInfoCmd := None\<rparr>"
      "[exampleHost\<lparr>gpuInfoCmd := None\<rparr>, exampleHost\<lparr>computeAppsCmd := None\<rparr>]"
      parseDigits init]
  by simp

text \<open>No cycle writes \<open>gpu_utilization\<close>: from start-up on, the placeholder that
  \<open>init\<close> seeds is the whole vector.\<close>

lemma ticks_util_init:
  "gpuUtilizationMetric (ticks pf init hs) = [(''none'', ''none'') \<mapsto> 0]"
  by (simp only: ticks_util init_util)



section \<open>The join of the two query outputs\<close>

lemma gpuUUIDToIndex_deviceRows:
  "gpuUUIDToIndex m lines = m ++ map_of (rev (deviceRows lines))"
proof (induction lines arbitrary: m)
  case Nil
  show ?case by (simp add: deviceRows_def)
next
  case (Cons line rest)
  show ?case
  proof (cases "length (Split line '', '') = 4")
    case True
    then have "deviceRows (line # rest)
        = (Split line '', '' ! 0, Split line '', '' ! 1) # deviceRows rest"
      by (simp add: deviceRows_def)
    with True Cons show ?thesis
      by (simp add: Let_def map_add_upd_left del: fun_upd_apply)
  next
    case False
    then have "deviceRows (line # rest) = deviceRows rest"
      by (simp add: deviceRows_def)
    with False Cons show ?thesis by (simp add: Let_def)
  qed
qed

lemma gpuUUIDToIndex_deviceIndex:
  "gpuUUIDToIndex Map.empty lines uuid = deviceIndex lines uuid"
  by (simp add: gpuUUIDToIndex_deviceRows deviceIndex_def)

lemma computeAppsLine_row:
  assumes "Split line '', '' = [pid, mem, uuid]"
  shows "computeAppsLine pf h idx reg line =
    (case pf (Trim mem '' MiB'') of
       None \<Rightarrow> reg
     | Some usedMemory \<Rightarrow>
         (case idx uuid of
            None \<Rightarrow> reg
          | Some index \<Rightarrow>
              (case getJobIDFromPID h pid of
                 Inl err \<Rightarrow> reg
               | Inr jobID \<Rightarrow>
                   reg\<lparr>gpuMemoryUsageMetric :=
                     (gpuMemoryUsageMetric reg)((index, jobID) \<mapsto> usedMemory * 1024 * 1024)\<rparr>)))"
  using assms by (simp add: computeAppsLine_def Let_def nth_Cons' split: option.splits sum.splits)

lemma computeAppsLine_dom_mono:
  "dom (gpuMemoryUsageMetric reg) \<subseteq> dom (gpuMemoryUsageMetric (computeAppsLine pf h idx reg line))"
  by (auto simp: computeAppsLine_def Let_def split: option.splits sum.splits)

lemma computeApps_foldl_dom_mono:
  "dom (gpuMemoryUsageMetric reg)
     \<subseteq> dom (gpuMemoryUsageMetric (foldl (computeAppsLine pf h idx) reg lines))"
proof (induction lines arbitrary: reg)
  case Nil
  show ?case by simp
next
  case (Cons l ls)
  have "dom (gpuMemoryUsageMetric reg) \<subseteq> dom (gpuMemoryUsageMetric (computeAppsLine pf h idx reg l))"
    by (rule computeAppsLine_dom_mono)
  also have "\<dots> \<subseteq> dom (gpuMemoryUsageMetric (foldl (computeAppsLine pf h idx) (computeAppsLine pf h idx reg l) ls))"
    by (rule Cons.IH)
  finally show ?case by simp
qed

lemma computeAppsLine_published:
  assumes "Split line '', '' = [pid, mem, uuid]" and "pf (Trim mem '' MiB'') = Some v"
    and "idx uuid = Some index" and "getJobIDFromPID h pid = Inr jobID"
  shows "computeAppsLine pf h idx reg line =
    reg\<lparr>gpuMemoryUsageMetric := (gpuMemoryUsageMetric reg)((index, jobID) \<mapsto> v * 1024 * 1024)\<rparr>"
  using assms by (simp add: computeAppsLine_row)

lemma matched_row_in_registry:
  assumes "gpuInfoCmd h = Some gpuInfoOutput" and "computeAppsCmd h = Some computeAppsOutput"
    and "line \<in> set (outputLines computeAppsOutput)"
    and "Split line '', '' = [pid, mem, uuid]" and "pf (Trim mem '' MiB'') = Some v"
    and "deviceIndex (outputLines gpuInfoOutput) uuid = Some index"
    and "getJobIDFromPID h pid = Inr jobID"
  shows "(index, jobID) \<in> dom (gpuMemoryUsageMetric (collectGPUMetrics pf h reg))"
proof -
  define idx where "idx = gpuUUIDToIndex Map.empty (outputLines gpuInfoOutput)"
  have idx: "idx uuid = Some index"
    using assms(6) by (simp add: idx_def gpuUUIDToIndex_deviceIndex)
  from assms(3) obtain xs ys where lines: "outputLines computeAppsOutput = xs @ line # ys"
    by (auto simp: in_set_conv_decomp)
  define r1 where "r1 = foldl (computeAppsLine pf h idx) reg xs"
  have "(index, jobID) \<in> dom (gpuMemoryUsageMetric (computeAppsLine pf h idx r1 line))"
    using assms(4,5,7) idx by (simp add: computeAppsLine_published)
  also have "\<dots> \<subseteq> dom (gpuMemoryUsageMetric
      (foldl (computeAppsLine pf h idx) (computeAppsLine pf h idx r1 line) ys))"
    by (rule computeApps_foldl_dom_mono)
  finally show ?thesis
    using assms(1,2) by (simp add: collectGPUMetrics_def lines r1_def idx_def)
qed

lemma collectGPUMetrics_single_row:
  assumes "gpuInfoCmd h = Some gpuInfoOutput" and "computeAppsCmd h = Some computeAppsOutput"
    and "outputLines computeAppsOutput = [line]"
    and "Split line '', '' = [pid, mem, uuid]" and "pf (Trim mem '' MiB'') = Some v"
    and "deviceIndex (outputLines gpuInfoOutput) uuid = Some index"
    and "getJobIDFromPID h pid = Inr jobID"
  shows "collectGPUMetrics pf h reg =
    reg\<lparr>gpuMemoryUsageMetric := (gpuMemoryUsageMetric reg)((index, jobID) \<mapsto> v * 1024 * 1024)\<rparr>"
proof -
  have "gpuUUIDToIndex Map.empty (outputLines gpuInfoOutput) uuid = Some index"
    using assms(6) by (simp add: gpuUUIDToIndex_deviceIndex)
  then show ?thesis
    using assms by (simp add: collectGPUMetrics_def computeAppsLine_published)
qed

lemma searchJobs_cmds:
  "searchJobs (h\<lparr>gpuInfoCmd := x\<rparr>) pid u js = searchJobs h pid u js"
  "searchJobs (h\<lparr>computeAppsCmd := y\<rparr>) pid u js = searchJobs h pid u js"
  by (induction js) (simp_all split: fileNode.splits scan.splits)

lemma searchUids_cmds:
  "searchUids (h\<lparr>gpuInfoCmd := x\<rparr>) pid es = searchUids h pid es"
  "searchUids (h\<lparr>computeAppsCmd := y\<rparr>) pid es = searchUids h pid es"
  by (induction es) (simp_all add: searchJobs_cmds split: option.splits)

lemma getJobIDFromPID_cmds:
  "getJobIDFromPID (h\<lparr>gpuInfoCmd := x\<rparr>) pid = getJobIDFromPID h pid"
  "getJobIDFromPID (h\<lparr>computeAppsCmd := y\<rparr>) pid = getJobIDFromPID h pid"
  by (simp_all add: getJobIDFromPID_def searchUids_cmds cong: option.case_cong)

lemma computeAppsLine_cmds:
  "computeAppsLine pf (h\<lparr>computeAppsCmd := y\<rparr>) idx reg line = computeAppsLine pf h idx reg line"
  by (simp add: computeAppsLine_def getJobIDFromPID_cmds cong: option.case_cong if_cong)

lemma computeAppsLine_malformed:
  assumes "length (Split bad '', '') \<noteq> 3 \<or> pf (Trim (Split bad '', '' ! 1) '' MiB'') = None"
  shows "computeAppsLine pf h idx reg bad = reg"
  using assms by (auto simp: computeAppsLine_def Let_def)

lemma gpuUUIDToIndex_append:
  "gpuUUIDToIndex m (xs @ ys) = gpuUUIDToIndex (gpuUUIDToIndex m xs) ys"
  by (induction xs arbitrary: m) (simp_all add: Let_def)

lemma Trim_decompose:
  "\<exists>pre suf. s = pre @ Trim s cutset @ suf \<and> set pre \<subseteq> set cutset \<and> set suf \<subseteq> set cutset"
proof -
  define P where "P = (\<lambda>c. c \<in> set cutset)"
  define t where "t = dropWhile P s"
  have 1: "s = takeWhile P s @ t" by (simp add: t_def)
  have "rev t = takeWhile P (rev t) @ dropWhile P (rev t)" by simp
  then have "t = rev (dropWhile P (rev t)) @ rev (takeWhile P (rev t))"
    by (metis rev_append rev_rev_ident)
  then have 2: "t = Trim s cutset @ rev (takeWhile P (rev t))"
    by (simp add: Trim_def P_def t_def)
  have "set (takeWhile P s) \<subseteq> set cutset"
    using set_takeWhileD [of _ P s] by (auto simp: P_def)
  moreover have "set (rev (takeWhile P (rev t))) \<subseteq> set cutset"
    using set_takeWhileD [of _ P "rev t"] by (auto simp: P_def)
  moreover have "s = takeWhile P s @ Trim s cutset @ rev (takeWhile P (rev t))"
    using 1 2 by simp
  ultimately show ?thesis by blast
qed

lemma Trim_ends:
  assumes "Trim s cutset \<noteq> []"
  shows "hd (Trim s cutset) \<notin> set cutset \<and> last (Trim s cutset) \<notin> set cutset"
proof -
  define P where "P = (\<lambda>c. c \<in> set cutset)"
  define t where "t = dropWhile P s"
  define u where "u = dropWhile P (rev t)"
  have T: "Trim s cutset = rev u" by (simp add: Trim_def u_def t_def P_def)
  with assms have un: "u \<noteq> []" by simp
  then have "\<not> P (hd u)" unfolding u_def by (rule hd_dropWhile)
  then have l: "last (rev u) \<notin> set cutset" using un by (simp add: P_def last_rev)
  have "suffix u (rev t)" unfolding u_def by (rule suffix_dropWhile)
  then have "prefix (rev u) t" by (metis rev_rev_ident suffix_to_prefix)
  then have "hd (rev u) = hd t" using un by (metis hd_append2 prefix_def rev_is_Nil_conv)
  moreover have "t \<noteq> []" using \<open>prefix (rev u) t\<close> un by auto
  then have "\<not> P (hd t)" unfolding t_def by (rule hd_dropWhile)
  ultimately show ?thesis using l T by (simp add: P_def)
qed

section \<open>The sample inputs, evaluated\<close>

lemma example_lines:
  "outputLines exampleGpuRow = [exampleGpuRow]"
  "outputLines exampleGpuInfo = [exampleGpuRow]"
  "outputLines exampleAppRow = [exampleAppRow]"
  "outputLines exampleComputeApps = [exampleAppRow]"
  by code_simp+

lemma example_fields:
  "Split exampleAppRow '', '' = [''1234'', ''512 MiB'', ''gpu-uuid-1'']"
  "Trim ''512 MiB'' '' MiB'' = ''512''"
  "deviceIndex [exampleGpuRow] ''gpu-uuid-1'' = Some ''0''"
  by code_simp+

lemma parseDigits_values:
  "parseDigits ''512'' = Some 512"
  "parseDigits ''256'' = Some 256"
  "parseDigits ''4096'' = Some 4096"
  "parseDigits ''0'' = Some 0"
  "parseDigits ''512 K'' = None"
  "parseDigits ''[N/A]'' = None"
  by (simp_all add: parseDigits_def digitVal_def)

lemma example_rawLines:
  "rawLines ''1234\<newline>'' = [''1234'']"
  "rawLines ''999\<newline>'' = [''999'']"
  by code_simp+

lemma exampleHost_job: "getJobIDFromPID exampleHost ''1234'' = Inr ''42''"
  by (simp add: getJobIDFromPID_def exampleHost_def basePath_def HasPrefix_def TrimPrefix_def
        example_rawLines MaxScanTokenSize_def dropCR_def)

lemma orphanHost_job: "getJobIDFromPID orphanHost ''1234'' = Inl JobNotFound"
  by (simp add: getJobIDFromPID_def orphanHost_def exampleHost_def basePath_def HasPrefix_def
        TrimPrefix_def example_rawLines MaxScanTokenSize_def dropCR_def)

lemma exampleHost_cmds:
  "gpuInfoCmd exampleHost = Some exampleGpuInfo"
  "computeAppsCmd exampleHost = Some exampleComputeApps"
  "gpuInfoCmd orphanHost = Some exampleGpuInfo"
  "computeAppsCmd orphanHost = Some exampleComputeApps"
  by (simp_all add: exampleHost_def orphanHost_def)

section \<open>The claims about the accelerator pass\<close>

text \<open>
  Claim C4. When the per-device query prints the single row
  \<open>gpu-uuid-1, 0, "GPUX", 37\<close>, the compute-apps query the single row
  \<open>1234, 512 MiB, gpu-uuid-1\<close> (each with or without its line end), the parser reads
  \<open>512\<close> as 512 and the job of process 1234 resolves to \<open>42\<close>, the pass sets
  \<open>gpu_memory_usage_bytes{gpu_id="0", job_id="42"}\<close> to 536870912 and writes nothing
  else.
\<close>

theorem spec_example_memory_entry:
  assumes "gpuInfoCmd h = Some g" and "g = exampleGpuRow \<or> g = exampleGpuRow @ ''\<newline>''"
    and "computeAppsCmd h = Some a" and "a = exampleAppRow \<or> a = exampleAppRow @ ''\<newline>''"
    and "pf ''512'' = Some 512"
    and "getJobIDFromPID h ''1234'' = Inr ''42''"
  shows "collectGPUMetrics pf h reg =
    reg\<lparr>gpuMemoryUsageMetric := (gpuMemoryUsageMetric reg)((''0'', ''42'') \<mapsto> 536870912)\<rparr>"
proof -
  have g: "outputLines g = [exampleGpuRow]"
    using assms(2) example_lines(1,2) by (auto simp: exampleGpuInfo_def)
  have a: "outputLines a = [exampleAppRow]"
    using assms(4) example_lines(3,4) by (auto simp: exampleComputeApps_def)
  have "collectGPUMetrics pf h reg =
    reg\<lparr>gpuMemoryUsageMetric :=
      (gpuMemoryUsageMetric reg)((''0'', ''42'') \<mapsto> 512 * 1024 * 1024)\<rparr>"
    by (rule collectGPUMetrics_single_row [where pf = pf, OF assms(1) assms(3) a example_fields(1)])
       (simp_all add: example_fields g assms(5,6))
  then show ?thesis by simp
qed

theorem spec_example_memory_entry_witness:
  "collectGPUMetrics parseDigits exampleHost init =
    init\<lparr>gpuMemoryUsageMetric := (gpuMemoryUsageMetric init)((''0'', ''42'') \<mapsto> 536870912)\<rparr>"
  using spec_example_memory_entry [of exampleHost exampleGpuInfo exampleComputeApps parseDigits init]
  by (simp add: exampleHost_cmds parseDigits_values exampleHost_job exampleGpuInfo_def
        exampleComputeApps_def)

lemma more_example_fields:
  "Split ''1234, 512 MiB, gpu-uuid-9'' '', '' = [''1234'', ''512 MiB'', ''gpu-uuid-9'']"
  "Split ''1234, 512 KiB, gpu-uuid-1'' '', '' = [''1234'', ''512 KiB'', ''gpu-uuid-1'']"
  "Split ''1234, 512 B, gpu-uuid-1'' '', '' = [''1234'', ''512 B'', ''gpu-uuid-1'']"
  "Split ''77, [N/A], gpu-uuid-1'' '', '' = [''77'', ''[N/A]'', ''gpu-uuid-1'']"
  "deviceIndex [exampleGpuRow] ''gpu-uuid-9'' = None"
  by code_simp+

lemma Trim_examples:
  "Trim ''512 KiB'' '' MiB'' = ''512 K''"
  "Trim ''2 GiB'' '' MiB'' = ''2 G''"
  "Trim ''[N/A]'' '' MiB'' = ''[N/A]''"
  "Trim ''512 B'' '' MiB'' = ''512''"
  by code_simp+

lemma noisy_lines:
  "outputLines noisyComputeApps =
     [''1234, 512 MiB, gpu-uuid-1''] @ ''77, [N/A], gpu-uuid-1'' # [''1234, 256 MiB, gpu-uuid-1'']"
  "outputLines cleanComputeApps = [''1234, 512 MiB, gpu-uuid-1''] @ [''1234, 256 MiB, gpu-uuid-1'']"
  by code_simp+

text \<open>
  Claim C3, as amended. For a process-memory row of three fields whose memory field
  parses: when its UUID is the UUID of a row of the per-device query and its PID resolves
  to a job, the row is published under the \<open>gpu_id\<close> equal to that device's index (the
  last such device row, should the UUID repeat) and the resolved job, and that entry is in
  the registry after the pass; when its UUID is the UUID of no per-device row, or its PID
  resolves to no job, the row publishes nothing.
\<close>

theorem row_joined_by_uuid:
  assumes "Split line '', '' = [pid, mem, uuid]"
    and "pf (Trim mem '' MiB'') = Some usedMemory"
  shows "computeAppsLine pf h (gpuUUIDToIndex Map.empty dlines) reg line =
      (case deviceIndex dlines uuid of
         None \<Rightarrow> reg
       | Some index \<Rightarrow>
           (case getJobIDFromPID h pid of
              Inl err \<Rightarrow> reg
            | Inr jobID \<Rightarrow>
                reg\<lparr>gpuMemoryUsageMetric :=
                  (gpuMemoryUsageMetric reg)((index, jobID) \<mapsto> usedMemory * 1024 * 1024)\<rparr>))
    \<and> (\<forall>gout aout index jobID.
          gpuInfoCmd h = Some gout \<longrightarrow> computeAppsCmd h = Some aout \<longrightarrow>
          dlines = outputLines gout \<longrightarrow> line \<in> set (outputLines aout) \<longrightarrow>
          deviceIndex dlines uuid = Some index \<longrightarrow> getJobIDFromPID h pid = Inr jobID \<longrightarrow>
          (index, jobID) \<in> dom (gpuMemoryUsageMetric (collectGPUMetrics pf h reg)))"
proof (intro conjI allI impI)
  show "computeAppsLine pf h (gpuUUIDToIndex Map.empty dlines) reg line =
      (case deviceIndex dlines uuid of
         None \<Rightarrow> reg
       | Some index \<Rightarrow>
           (case getJobIDFromPID h pid of
              Inl err \<Rightarrow> reg
            | Inr jobID \<Rightarrow>
                reg\<lparr>gpuMemoryUsageMetric :=
                  (gpuMemoryUsageMetric reg)((index, jobID) \<mapsto> usedMemory * 1024 * 1024)\<rparr>))"
    using assms by (simp add: computeAppsLine_row gpuUUIDToIndex_deviceIndex)
next
  fix gout aout index jobID
  assume "gpuInfoCmd h = Some gout" "computeAppsCmd h = Some aout"
    "dlines = outputLines gout" "line \<in> set (outputLines aout)"
    "deviceIndex dlines uuid = Some index" "getJobIDFromPID h pid = Inr jobID"
  with assms show "(index, jobID) \<in> dom (gpuMemoryUsageMetric (collectGPUMetrics pf h reg))"
    by (simp add: matched_row_in_registry [where pf = pf and line = line])
qed

theorem row_joined_by_uuid_witness:
  "computeAppsLine parseDigits exampleHost
       (gpuUUIDToIndex Map.empty (outputLines exampleGpuInfo)) init exampleAppRow
     = init\<lparr>gpuMemoryUsageMetric :=
         (gpuMemoryUsageMetric init)((''0'', ''42'') \<mapsto> 512 * 1024 * 1024)\<rparr>
   \<and> (''0'', ''42'') \<in> dom (gpuMemoryUsageMetric (collectGPUMetrics parseDigits exampleHost init))
   \<and> computeAppsLine parseDigits exampleHost
       (gpuUUIDToIndex Map.empty (outputLines exampleGpuInfo)) init ''1234, 512 MiB, gpu-uuid-9''
     = init"
proof -
  have p: "parseDigits (Trim ''512 MiB'' '' MiB'') = Some 512"
    by (simp add: example_fields parseDigits_values)
  note m = row_joined_by_uuid [where pf = parseDigits and h = exampleHost and reg = init
      and dlines = "outputLines exampleGpuInfo", OF example_fields(1) p]
  note u = row_joined_by_uuid [where pf = parseDigits and h = exampleHost and reg = init
      and dlines = "outputLines exampleGpuInfo", OF more_example_fields(1) p]
  from m have "computeAppsLine parseDigits exampleHost
       (gpuUUIDToIndex Map.empty (outputLines exampleGpuInfo)) init exampleAppRow
     = init\<lparr>gpuMemoryUsageMetric :=
         (gpuMemoryUsageMetric init)((''0'', ''42'') \<mapsto> 512 * 1024 * 1024)\<rparr>"
    by (simp add: example_lines example_fields exampleHost_job)
  moreover from m
  have "(''0'', ''42'') \<in> dom (gpuMemoryUsageMetric (collectGPUMetrics parseDigits exampleHost init))"
    by (simp add: example_lines example_fields exampleHost_job exampleHost_cmds)
  moreover from u have "computeAppsLine parseDigits exampleHost
       (gpuUUIDToIndex Map.empty (outputLines exampleGpuInfo)) init ''1234, 512 MiB, gpu-uuid-9''
     = init"
    by (simp add: example_lines more_example_fields)
  ultimately show ?thesis by simp
qed

text \<open>
  The claim as stated fails: a row whose UUID is that of device 0 is not published when
  its process is in no job (the pass writes nothing at all on that host).
\<close>

theorem matched_row_without_job_is_dropped:
  "Split exampleAppRow '', '' = [''1234'', ''512 MiB'', ''gpu-uuid-1'']
   \<and> deviceIndex (outputLines exampleGpuInfo) ''gpu-uuid-1'' = Some ''0''
   \<and> gpuInfoCmd orphanHost = Some exampleGpuInfo
   \<and> computeAppsCmd orphanHost = Some exampleComputeApps
   \<and> collectGPUMetrics parseDigits orphanHost init = init"
proof -
  have "computeAppsLine parseDigits orphanHost idx init exampleAppRow = init" for idx
    by (simp add: computeAppsLine_row [OF example_fields(1)] orphanHost_job
          split: option.splits)
  then have "collectGPUMetrics parseDigits orphanHost init = init"
    by (simp add: collectGPUMetrics_def exampleHost_cmds example_lines)
  then show ?thesis
    by (simp add: example_fields example_lines exampleHost_cmds)
qed

text \<open>
  Claim C10. The memory field of a three-field row is stripped of leading and trailing
  characters of the set \<open>{space, M, i, B}\<close> and of nothing else, and the remainder goes to
  the parser. When the parser rejects it the row is skipped and publishes nothing: so
  for \<open>512 KiB\<close> (which becomes \<open>512 K\<close>), \<open>2 GiB\<close> (\<open>2 G\<close>) and \<open>[N/A]\<close>
  (unchanged) once the parser rejects those. When it accepts, the value times 1024 * 1024
  is what is published, whatever the field's suffix was: \<open>512 B\<close> becomes \<open>512\<close> and
  is published as 512 MiB.
\<close>

theorem memory_field_stripped_and_scaled:
  assumes "Split line '', '' = [pid, mem, uuid]"
  shows "(pf (Trim mem '' MiB'') = None \<longrightarrow> computeAppsLine pf h idx reg line = reg)
    \<and> (\<forall>v index jobID.
          pf (Trim mem '' MiB'') = Some v \<longrightarrow> idx uuid = Some index \<longrightarrow>
          getJobIDFromPID h pid = Inr jobID \<longrightarrow>
          computeAppsLine pf h idx reg line =
            reg\<lparr>gpuMemoryUsageMetric :=
              (gpuMemoryUsageMetric reg)((index, jobID) \<mapsto> v * (1024 * 1024))\<rparr>)
    \<and> (\<exists>pre suf. mem = pre @ Trim mem '' MiB'' @ suf
          \<and> set pre \<subseteq> {CHR '' '', CHR ''M'', CHR ''i'', CHR ''B''}
          \<and> set suf \<subseteq> {CHR '' '', CHR ''M'', CHR ''i'', CHR ''B''})
    \<and> (Trim mem '' MiB'' \<noteq> [] \<longrightarrow>
          hd (Trim mem '' MiB'') \<notin> {CHR '' '', CHR ''M'', CHR ''i'', CHR ''B''}
          \<and> last (Trim mem '' MiB'') \<notin> {CHR '' '', CHR ''M'', CHR ''i'', CHR ''B''})
    \<and> Trim ''512 KiB'' '' MiB'' = ''512 K''
    \<and> Trim ''2 GiB'' '' MiB'' = ''2 G''
    \<and> Trim ''[N/A]'' '' MiB'' = ''[N/A]''
    \<and> Trim ''512 B'' '' MiB'' = ''512''"
proof -
  have "pf (Trim mem '' MiB'') = None \<longrightarrow> computeAppsLine pf h idx reg line = reg"
    using assms by (simp add: computeAppsLine_row)
  moreover have "\<forall>v index jobID.
          pf (Trim mem '' MiB'') = Some v \<longrightarrow> idx uuid = Some index \<longrightarrow>
          getJobIDFromPID h pid = Inr jobID \<longrightarrow>
          computeAppsLine pf h idx reg line =
            reg\<lparr>gpuMemoryUsageMetric :=
              (gpuMemoryUsageMetric reg)((index, jobID) \<mapsto> v * (1024 * 1024))\<rparr>"
    using assms by (simp add: computeAppsLine_row mult.assoc)
  moreover have "\<exists>pre suf. mem = pre @ Trim mem '' MiB'' @ suf
          \<and> set pre \<subseteq> {CHR '' '', CHR ''M'', CHR ''i'', CHR ''B''}
          \<and> set suf \<subseteq> {CHR '' '', CHR ''M'', CHR ''i'', CHR ''B''}"
    using Trim_decompose [of mem "'' MiB''"] by simp
  moreover have "Trim mem '' MiB'' \<noteq> [] \<longrightarrow>
          hd (Trim mem '' MiB'') \<notin> {CHR '' '', CHR ''M'', CHR ''i'', CHR ''B''}
          \<and> last (Trim mem '' MiB'') \<notin> {CHR '' '', CHR ''M'', CHR ''i'', CHR ''B''}"
    using Trim_ends [of mem "'' MiB''"] by simp
  ultimately show ?thesis
    by (simp only: Trim_examples simp_thms)
qed

theorem memory_field_stripped_and_scaled_witness:
  "computeAppsLine parseDigits exampleHost [''gpu-uuid-1'' \<mapsto> ''0''] init
       ''1234, 512 KiB, gpu-uuid-1'' = init
   \<and> computeAppsLine parseDigits exampleHost [''gpu-uuid-1'' \<mapsto> ''0''] init
       ''1234, 512 B, gpu-uuid-1''
     = init\<lparr>gpuMemoryUsageMetric :=
         (gpuMemoryUsageMetric init)((''0'', ''42'') \<mapsto> 536870912)\<rparr>"
proof -
  note k = memory_field_stripped_and_scaled [where pf = parseDigits and h = exampleHost
      and idx = "[''gpu-uuid-1'' \<mapsto> ''0'']" and reg = init, OF more_example_fields(2)]
  note b = memory_field_stripped_and_scaled [where pf = parseDigits and h = exampleHost
      and idx = "[''gpu-uuid-1'' \<mapsto> ''0'']" and reg = init, OF more_example_fields(3)]
  from k have "computeAppsLine parseDigits exampleHost [''gpu-uuid-1'' \<mapsto> ''0''] init
       ''1234, 512 KiB, gpu-uuid-1'' = init"
    by (simp add: Trim_examples parseDigits_values)
  moreover from b have "computeAppsLine parseDigits exampleHost [''gpu-uuid-1'' \<mapsto> ''0''] init
       ''1234, 512 B, gpu-uuid-1''
     = init\<lparr>gpuMemoryUsageMetric :=
         (gpuMemoryUsageMetric init)((''0'', ''42'') \<mapsto> 536870912)\<rparr>"
    by (simp add: Trim_examples parseDigits_values exampleHost_job)
  ultimately show ?thesis by simp
qed

lemma row256_fields:
  "Split ''1234, 256 MiB, gpu-uuid-1'' '', '' = [''1234'', ''256 MiB'', ''gpu-uuid-1'']"
  "Trim ''256 MiB'' '' MiB'' = ''256''"
  "Split ''1234, 512 MiB, gpu-uuid-1'' '', '' = [''1234'', ''512 MiB'', ''gpu-uuid-1'']"
  "outputLines onlyBadComputeApps = [] @ ''77, [N/A], gpu-uuid-1'' # []"
  "outputLines (naGpuRow @ ''\<newline>'') = [naGpuRow]"
  "Split naGpuRow '', '' = [''gpu-uuid-1'', ''[N/A]'', [CHR 0x22] @ ''GPUX'' @ [CHR 0x22], ''[N/A]'']"
  "deviceIndex [naGpuRow] ''gpu-uuid-1'' = Some ''[N/A]''"
  "length (Split ''garbage'' '', '') \<noteq> 4"
  "deviceIndex ([] @ [exampleGpuRow]) ''gpu-uuid-1'' = Some ''0''"
  by code_simp+

lemma gpuUUIDToIndex_skips:
  assumes "length (Split badDevice '', '') \<noteq> 4"
  shows "gpuUUIDToIndex m (ds @ badDevice # ds') = gpuUUIDToIndex m (ds @ ds')"
  using assms by (simp add: gpuUUIDToIndex_append Let_def)

lemma collectGPUMetrics_lines:
  assumes "gpuInfoCmd h = Some gpuInfoOutput" and "computeAppsCmd h = Some computeAppsOutput"
  shows "collectGPUMetrics pf h reg =
    foldl (computeAppsLine pf h (gpuUUIDToIndex Map.empty (outputLines gpuInfoOutput)))
      reg (outputLines computeAppsOutput)"
  using assms by (simp add: collectGPUMetrics_def)

text \<open>
  Claim C7, as amended. In the compute-apps output a row that does not have three
  fields, or whose memory field does not parse, is skipped alone: the pass is the pass
  over the remaining rows, and it publishes what it publishes on an output without that
  row. Every later row that has three fields, parses, matches a device and resolves to a
  job is still published, with its own value, at its place in the sequence of writes,
  and its entry is in the registry after the pass. In the per-device output a row that
  does not have four fields is skipped alone: the map from UUID to index is the lookup
  among the remaining rows. No field of a per-device row is read as a number, so a
  four-field row with a non-numeric index or utilization is not skipped.
\<close>

theorem malformed_row_skipped_alone:
  assumes "gpuInfoCmd h = Some gpuInfoOutput" and "computeAppsCmd h = Some computeAppsOutput"
    and "outputLines computeAppsOutput = before @ bad # after"
    and "length (Split bad '', '') \<noteq> 3 \<or> pf (Trim (Split bad '', '' ! 1) '' MiB'') = None"
  shows "collectGPUMetrics pf h reg =
      foldl (computeAppsLine pf h (gpuUUIDToIndex Map.empty (outputLines gpuInfoOutput)))
        reg (before @ after)
    \<and> (\<forall>computeAppsOutput'. outputLines computeAppsOutput' = before @ after \<longrightarrow>
          collectGPUMetrics pf h reg
            = collectGPUMetrics pf (h\<lparr>computeAppsCmd := Some computeAppsOutput'\<rparr>) reg)
    \<and> (\<forall>mid line rest pid mem uuid v index jobID.
          after = mid @ line # rest \<longrightarrow> Split line '', '' = [pid, mem, uuid] \<longrightarrow>
          pf (Trim mem '' MiB'') = Some v \<longrightarrow>
          deviceIndex (outputLines gpuInfoOutput) uuid = Some index \<longrightarrow>
          getJobIDFromPID h pid = Inr jobID \<longrightarrow>
          collectGPUMetrics pf h reg =
            foldl (computeAppsLine pf h (gpuUUIDToIndex Map.empty (outputLines gpuInfoOutput)))
              ((foldl (computeAppsLine pf h (gpuUUIDToIndex Map.empty (outputLines gpuInfoOutput)))
                  reg (before @ mid))
               \<lparr>gpuMemoryUsageMetric :=
                  (gpuMemoryUsageMetric
                    (foldl (computeAppsLine pf h
                        (gpuUUIDToIndex Map.empty (outputLines gpuInfoOutput))) reg (before @ mid)))
                  ((index, jobID) \<mapsto> v * 1024 * 1024)\<rparr>)
              rest
          \<and> (index, jobID) \<in> dom (gpuMemoryUsageMetric (collectGPUMetrics pf h reg)))
    \<and> (\<forall>badDevice ds ds' u. length (Split badDevice '', '') \<noteq> 4 \<longrightarrow>
          gpuUUIDToIndex Map.empty (ds @ badDevice # ds') u = deviceIndex (ds @ ds') u)"
proof -
  define idx where "idx = gpuUUIDToIndex Map.empty (outputLines gpuInfoOutput)"
  define step where "step = computeAppsLine pf h idx"
  have skip: "step r bad = r" for r
    unfolding step_def by (rule computeAppsLine_malformed [where pf = pf, OF assms(4)])
  have "collectGPUMetrics pf h reg = foldl step reg (outputLines computeAppsOutput)"
    by (simp add: collectGPUMetrics_lines [OF assms(1,2)] idx_def step_def)
  then have pass: "collectGPUMetrics pf h reg = foldl step reg (before @ after)"
    by (simp add: assms(3) skip)
  have same: "collectGPUMetrics pf h reg
      = collectGPUMetrics pf (h\<lparr>computeAppsCmd := Some out'\<rparr>) reg"
    if "outputLines out' = before @ after" for out'
  proof -
    have "computeAppsLine pf (h\<lparr>computeAppsCmd := Some out'\<rparr>) idx = step"
      unfolding step_def by (intro ext) (rule computeAppsLine_cmds)
    moreover have "collectGPUMetrics pf (h\<lparr>computeAppsCmd := Some out'\<rparr>) reg
        = foldl (computeAppsLine pf (h\<lparr>computeAppsCmd := Some out'\<rparr>) idx) reg (before @ after)"
      using assms(1) that by (simp add: collectGPUMetrics_def idx_def)
    ultimately have "collectGPUMetrics pf (h\<lparr>computeAppsCmd := Some out'\<rparr>) reg
        = foldl step reg (before @ after)"
      by simp
    with pass show ?thesis by simp
  qed
  have later: "collectGPUMetrics pf h reg =
        foldl step ((foldl step reg (before @ mid))
          \<lparr>gpuMemoryUsageMetric :=
             (gpuMemoryUsageMetric (foldl step reg (before @ mid)))
             ((index, jobID) \<mapsto> v * 1024 * 1024)\<rparr>) rest
      \<and> (index, jobID) \<in> dom (gpuMemoryUsageMetric (collectGPUMetrics pf h reg))"
    if "after = mid @ line # rest" "Split line '', '' = [pid, mem, uuid]"
      "pf (Trim mem '' MiB'') = Some v" "deviceIndex (outputLines gpuInfoOutput) uuid = Some index"
      "getJobIDFromPID h pid = Inr jobID"
    for mid line rest pid mem uuid v index jobID
  proof -
    define r1 where "r1 = foldl step reg (before @ mid)"
    have i: "idx uuid = Some index"
      using that(4) by (simp add: idx_def gpuUUIDToIndex_deviceIndex)
    have w: "step r1 line =
        r1\<lparr>gpuMemoryUsageMetric := (gpuMemoryUsageMetric r1)((index, jobID) \<mapsto> v * 1024 * 1024)\<rparr>"
      unfolding step_def using that(2,3,5) i by (simp add: computeAppsLine_published)
    have p: "collectGPUMetrics pf h reg = foldl step (step r1 line) rest"
      using pass that(1) by (simp add: r1_def)
    have "(index, jobID) \<in> dom (gpuMemoryUsageMetric (step r1 line))"
      by (simp add: w)
    moreover have "dom (gpuMemoryUsageMetric (step r1 line))
        \<subseteq> dom (gpuMemoryUsageMetric (foldl step (step r1 line) rest))"
      unfolding step_def by (rule computeApps_foldl_dom_mono)
    ultimately have "(index, jobID) \<in> dom (gpuMemoryUsageMetric (collectGPUMetrics pf h reg))"
      using p by auto
    with p w show ?thesis by (simp add: r1_def)
  qed
  have dev: "gpuUUIDToIndex Map.empty (ds @ badDevice # ds') u = deviceIndex (ds @ ds') u"
    if "length (Split badDevice '', '') \<noteq> 4" for badDevice ds ds' u
    using that by (simp add: gpuUUIDToIndex_skips gpuUUIDToIndex_deviceIndex)
  from pass same later dev show ?thesis
    unfolding idx_def step_def by blast
qed


lemma noisyHost_facts:
  "gpuInfoCmd (exampleHost\<lparr>computeAppsCmd := Some out\<rparr>) = Some exampleGpuInfo"
  "computeAppsCmd (exampleHost\<lparr>computeAppsCmd := Some out\<rparr>) = Some out"
  "getJobIDFromPID (exampleHost\<lparr>computeAppsCmd := Some out\<rparr>) ''1234'' = Inr ''42''"
  "deviceIndex (outputLines exampleGpuInfo) ''gpu-uuid-1'' = Some ''0''"
  "parseDigits (Trim ''256 MiB'' '' MiB'') = Some 256"
  "parseDigits (Trim ''512 MiB'' '' MiB'') = Some 512"
  by (simp_all add: exampleHost_cmds getJobIDFromPID_cmds exampleHost_job example_lines
        example_fields row256_fields parseDigits_values)

lemma noisyHost_first_row:
  "computeAppsLine parseDigits (exampleHost\<lparr>computeAppsCmd := Some out\<rparr>)
       (gpuUUIDToIndex Map.empty (outputLines exampleGpuInfo)) r ''1234, 512 MiB, gpu-uuid-1''
     = r\<lparr>gpuMemoryUsageMetric := (gpuMemoryUsageMetric r)((''0'', ''42'') \<mapsto> 536870912)\<rparr>"
proof -
  have "gpuUUIDToIndex Map.empty (outputLines exampleGpuInfo) ''gpu-uuid-1'' = Some ''0''"
    by (simp add: gpuUUIDToIndex_deviceIndex noisyHost_facts)
  then show ?thesis
    by (simp add: computeAppsLine_row [OF row256_fields(3)] noisyHost_facts)
qed

theorem malformed_row_skipped_alone_witness:
  "collectGPUMetrics parseDigits (exampleHost\<lparr>computeAppsCmd := Some noisyComputeApps\<rparr>) init
     = init\<lparr>gpuMemoryUsageMetric := (gpuMemoryUsageMetric init)((''0'', ''42'') \<mapsto> 268435456)\<rparr>
   \<and> (''0'', ''42'') \<in> dom (gpuMemoryUsageMetric
         (collectGPUMetrics parseDigits (exampleHost\<lparr>computeAppsCmd := Some noisyComputeApps\<rparr>) init))
   \<and> collectGPUMetrics parseDigits (exampleHost\<lparr>computeAppsCmd := Some noisyComputeApps\<rparr>) init
     = collectGPUMetrics parseDigits (exampleHost\<lparr>computeAppsCmd := Some cleanComputeApps\<rparr>) init
   \<and> collectGPUMetrics parseDigits (exampleHost\<lparr>computeAppsCmd := Some onlyBadComputeApps\<rparr>) init
     = init
   \<and> gpuUUIDToIndex Map.empty ([] @ ''garbage'' # [exampleGpuRow]) ''gpu-uuid-1'' = Some ''0''"
proof -
  have bad: "length (Split ''77, [N/A], gpu-uuid-1'' '', '') \<noteq> 3
      \<or> parseDigits (Trim (Split ''77, [N/A], gpu-uuid-1'' '', '' ! 1) '' MiB'') = None"
    by (simp add: more_example_fields Trim_examples parseDigits_values)
  note noisy = malformed_row_skipped_alone [where pf = parseDigits and reg = init,
      OF noisyHost_facts(1) noisyHost_facts(2) noisy_lines(1) bad]
  note only = malformed_row_skipped_alone [where pf = parseDigits and reg = init,
      OF noisyHost_facts(1) noisyHost_facts(2) row256_fields(4) bad]
  have e: "[''1234, 256 MiB, gpu-uuid-1''] = [] @ ''1234, 256 MiB, gpu-uuid-1'' # []"
    by simp
  note later = noisy [THEN conjunct2, THEN conjunct2, THEN conjunct1, rule_format,
      OF e row256_fields(1) noisyHost_facts(5) noisyHost_facts(4) noisyHost_facts(3)]
  have 1: "collectGPUMetrics parseDigits (exampleHost\<lparr>computeAppsCmd := Some noisyComputeApps\<rparr>) init
     = init\<lparr>gpuMemoryUsageMetric := (gpuMemoryUsageMetric init)((''0'', ''42'') \<mapsto> 268435456)\<rparr>"
    using later [THEN conjunct1] by (simp add: noisyHost_first_row)
  have 2: "(''0'', ''42'') \<in> dom (gpuMemoryUsageMetric
         (collectGPUMetrics parseDigits (exampleHost\<lparr>computeAppsCmd := Some noisyComputeApps\<rparr>) init))"
    by (rule later [THEN conjunct2])
  have 3: "collectGPUMetrics parseDigits (exampleHost\<lparr>computeAppsCmd := Some noisyComputeApps\<rparr>) init
     = collectGPUMetrics parseDigits (exampleHost\<lparr>computeAppsCmd := Some cleanComputeApps\<rparr>) init"
    using noisy [THEN conjunct2, THEN conjunct1, rule_format, OF noisy_lines(2)] by simp
  have 4: "collectGPUMetrics parseDigits (exampleHost\<lparr>computeAppsCmd := Some onlyBadComputeApps\<rparr>) init
     = init"
    using only [THEN conjunct1] by simp
  have 5: "gpuUUIDToIndex Map.empty ([] @ ''garbage'' # [exampleGpuRow]) ''gpu-uuid-1'' = Some ''0''"
    using noisy [THEN conjunct2, THEN conjunct2, THEN conjunct2, rule_format, OF row256_fields(8),
        of "[]" "[exampleGpuRow]" "''gpu-uuid-1''"]
    by (simp only: row256_fields(9))
  from 1 2 3 4 5 show ?thesis by (intro conjI)
qed

text \<open>
  The claim as stated fails for the per-device output: a row with \<open>[N/A]\<close> in the place
  of the index and of the utilization has four fields and is not skipped. Its index
  text becomes the \<open>gpu_id\<close> under which the process of the example is published.
\<close>

theorem non_numeric_device_row_is_used:
  "gpuInfoCmd naHost = Some (naGpuRow @ ''\<newline>'')
   \<and> Split naGpuRow '', '' = [''gpu-uuid-1'', ''[N/A]'', [CHR 0x22] @ ''GPUX'' @ [CHR 0x22], ''[N/A]'']
   \<and> parseDigits ''[N/A]'' = None
   \<and> collectGPUMetrics parseDigits naHost init
     = init\<lparr>gpuMemoryUsageMetric :=
         (gpuMemoryUsageMetric init)((''[N/A]'', ''42'') \<mapsto> 536870912)\<rparr>"
proof -
  have g: "gpuInfoCmd naHost = Some (naGpuRow @ ''\<newline>'')"
    and c: "computeAppsCmd naHost = Some exampleComputeApps"
    and j: "getJobIDFromPID naHost ''1234'' = Inr ''42''"
    by (simp_all add: naHost_def exampleHost_cmds getJobIDFromPID_cmds exampleHost_job)
  have "collectGPUMetrics parseDigits naHost init
     = init\<lparr>gpuMemoryUsageMetric :=
         (gpuMemoryUsageMetric init)((''[N/A]'', ''42'') \<mapsto> 512 * 1024 * 1024)\<rparr>"
    by (rule collectGPUMetrics_single_row [where pf = parseDigits,
          OF g c example_lines(4) example_fields(1)])
       (simp_all add: example_fields row256_fields parseDigits_values j)
  then show ?thesis
    by (simp add: g row256_fields parseDigits_values)
qed

section \<open>The claims about the I/O pass\<close>

lemma foldl_grows:
  fixes g :: "'s \<Rightarrow> 'k set"
  assumes "\<And>r x. g r \<subseteq> g (f r x)"
  shows "g r \<subseteq> g (foldl f r xs)"
proof (induction xs arbitrary: r)
  case Nil
  show ?case by simp
next
  case (Cons x xs)
  have "g r \<subseteq> g (f r x)" by (rule assms)
  also have "\<dots> \<subseteq> g (foldl f (f r x) xs)" by (rule Cons.IH)
  finally show ?case by simp
qed

lemma foldl_reaches:
  fixes g :: "'s \<Rightarrow> 'k set"
  assumes grows: "\<And>r x. g r \<subseteq> g (f r x)"
    and step: "\<And>r. k \<in> g (f r x)"
    and x: "x \<in> set xs"
  shows "k \<in> g (foldl f r xs)"
proof -
  from x obtain ys zs where xs: "xs = ys @ x # zs"
    by (auto simp: in_set_conv_decomp)
  have "k \<in> g (f (foldl f r ys) x)" by (rule step)
  moreover have "g (f (foldl f r ys) x) \<subseteq> g (foldl f (f (foldl f r ys) x) zs)"
    using grows by (rule foldl_grows)
  ultimately show ?thesis by (auto simp: xs)
qed

lemma ioLine_grows: "ioKeys reg \<subseteq> ioKeys (ioLine pf pid jobEntry reg line)"
  by (auto simp: ioKeys_def ioLine_def Let_def split: option.splits)

lemma ioPid_grows: "ioKeys reg \<subseteq> ioKeys (ioPid pf h jobEntry reg pid)"
proof (cases "files h (''/proc/'' @ pid @ ''/io'')")
  case (Data content)
  then show ?thesis
    using foldl_grows [where g = ioKeys and f = "ioLine pf pid jobEntry", OF ioLine_grows]
    by (simp add: ioPid_def)
qed (simp_all add: ioPid_def)

lemma ioJob_grows: "ioKeys reg \<subseteq> ioKeys (ioJob pf h uidPath reg jobEntry)"
proof (cases "HasPrefix jobEntry ''job_''")
  case True
  show ?thesis
  proof (cases "files h (uidPath @ ''/'' @ jobEntry @ ''/cgroup.procs'')")
    case (Data pids)
    show ?thesis
    proof (cases "Fields pids = []")
      case True
      with Data \<open>HasPrefix jobEntry ''job_''\<close> show ?thesis
        by (auto simp: ioJob_def ioKeys_def)
    next
      case False
      with Data \<open>HasPrefix jobEntry ''job_''\<close> show ?thesis
        using foldl_grows [where g = ioKeys and f = "ioPid pf h jobEntry", OF ioPid_grows]
        by (simp add: ioJob_def)
    qed
  qed (simp_all add: ioJob_def)
qed (simp add: ioJob_def)

lemma ioUid_grows: "ioKeys reg \<subseteq> ioKeys (ioUid pf h reg entry)"
  using foldl_grows [where g = ioKeys and f = "ioJob pf h (basePath @ ''/'' @ entry)", OF ioJob_grows]
  by (simp add: ioUid_def split: option.splits)

lemma ioJob_no_pids:
  assumes "HasPrefix jobEntry ''job_''"
    and "files h (uidPath @ ''/'' @ jobEntry @ ''/cgroup.procs'') = Data pids"
    and "Fields pids = []"
  shows "ioJob pf h uidPath reg jobEntry =
    reg\<lparr>ioReadBytesMetric := (ioReadBytesMetric reg)((''none'', jobEntry) \<mapsto> 0),
        ioWriteBytesMetric := (ioWriteBytesMetric reg)((''none'', jobEntry) \<mapsto> 0)\<rparr>"
  using assms by (simp add: ioJob_def)

lemma no_pids_reaches_registry:
  assumes "dirs h basePath = Some entries" and "entry \<in> set entries"
    and "HasPrefix entry ''uid_''"
    and "dirs h (basePath @ ''/'' @ entry) = Some jobEntries" and "jobEntry \<in> set jobEntries"
    and "HasPrefix jobEntry ''job_''"
    and "files h (basePath @ ''/'' @ entry @ ''/'' @ jobEntry @ ''/cgroup.procs'') = Data pids"
    and "Fields pids = []"
    and "k = (True, ''none'', jobEntry) \<or> k = (False, ''none'', jobEntry)"
  shows "k \<in> ioKeys (collectIOMetrics pf h reg)"
proof -
  have job: "k \<in> ioKeys (ioJob pf h (basePath @ ''/'' @ entry) r jobEntry)" for r
    using assms(6,7,8,9) by (auto simp: ioJob_no_pids ioKeys_def)
  have "k \<in> ioKeys (foldl (ioJob pf h (basePath @ ''/'' @ entry)) r jobEntries)" for r
    by (rule foldl_reaches [where g = ioKeys and f = "ioJob pf h (basePath @ ''/'' @ entry)",
          OF ioJob_grows job assms(5)])
  then have uid: "k \<in> ioKeys (ioUid pf h r entry)" for r
    using assms(3,4) by (simp add: ioUid_def)
  have "k \<in> ioKeys (foldl (ioUid pf h) reg entries)"
    by (rule foldl_reaches [where g = ioKeys and f = "ioUid pf h", OF ioUid_grows uid assms(2)])
  then show ?thesis using assms(1) by (simp add: collectIOMetrics_def)
qed

text \<open>
  Claim C5. For a job directory (a \<open>job_\<close> entry of a readable \<open>uid_\<close> directory
  under the Slurm root) whose \<open>cgroup.procs\<close> holds no PID, the pass makes exactly two
  writes for that job: \<open>io_read_bytes\<close> and \<open>io_write_bytes\<close> with \<open>pid="none"\<close>, the
  job label being the directory name, each at 0; and both entries are in the registry
  when the pass ends.
\<close>

theorem job_without_pids_gets_zero_entries:
  assumes "dirs h basePath = Some entries" and "entry \<in> set entries"
    and "HasPrefix entry ''uid_''"
    and "dirs h (basePath @ ''/'' @ entry) = Some jobEntries" and "jobEntry \<in> set jobEntries"
    and "HasPrefix jobEntry ''job_''"
    and "files h (basePath @ ''/'' @ entry @ ''/'' @ jobEntry @ ''/cgroup.procs'') = Data pids"
    and "Fields pids = []"
  shows "ioJob pf h (basePath @ ''/'' @ entry) reg jobEntry =
      reg\<lparr>ioReadBytesMetric := (ioReadBytesMetric reg)((''none'', jobEntry) \<mapsto> 0),
          ioWriteBytesMetric := (ioWriteBytesMetric reg)((''none'', jobEntry) \<mapsto> 0)\<rparr>
    \<and> (''none'', jobEntry) \<in> dom (ioReadBytesMetric (collectIOMetrics pf h reg))
    \<and> (''none'', jobEntry) \<in> dom (ioWriteBytesMetric (collectIOMetrics pf h reg))"
proof -
  have "(True, ''none'', jobEntry) \<in> ioKeys (collectIOMetrics pf h reg)"
    by (rule no_pids_reaches_registry [OF assms]) simp
  moreover have "(False, ''none'', jobEntry) \<in> ioKeys (collectIOMetrics pf h reg)"
    by (rule no_pids_reaches_registry [OF assms]) simp
  ultimately show ?thesis
    using assms(6,7,8) by (auto simp: ioJob_no_pids ioKeys_def)
qed

lemma emptyJobHost_facts:
  "dirs emptyJobHost basePath = Some [''uid_1000'']"
  "dirs emptyJobHost (basePath @ ''/'' @ ''uid_1000'') = Some [''job_7'']"
  "files emptyJobHost (basePath @ ''/'' @ ''uid_1000'' @ ''/'' @ ''job_7'' @ ''/cgroup.procs'') = Data []"
  "HasPrefix ''uid_1000'' ''uid_''"
  "HasPrefix ''job_7'' ''job_''"
  by (simp_all add: emptyJobHost_def basePath_def HasPrefix_def)

lemma Fields_empty: "Fields [] = []"
  by code_simp

theorem job_without_pids_gets_zero_entries_witness:
  "ioJob parseDigits emptyJobHost (basePath @ ''/'' @ ''uid_1000'') init ''job_7'' =
      init\<lparr>ioReadBytesMetric := (ioReadBytesMetric init)((''none'', ''job_7'') \<mapsto> 0),
           ioWriteBytesMetric := (ioWriteBytesMetric init)((''none'', ''job_7'') \<mapsto> 0)\<rparr>
    \<and> (''none'', ''job_7'') \<in> dom (ioReadBytesMetric (collectIOMetrics parseDigits emptyJobHost init))
    \<and> (''none'', ''job_7'') \<in> dom (ioWriteBytesMetric (collectIOMetrics parseDigits emptyJobHost init))"
  by (rule job_without_pids_gets_zero_entries [OF emptyJobHost_facts(1) _ emptyJobHost_facts(4)
        emptyJobHost_facts(2) _ emptyJobHost_facts(5) emptyJobHost_facts(3) Fields_empty])
     simp_all

lemma io_example_lines:
  "Split ''rchar: 100\<newline>read_bytes: 4096\<newline>write_bytes: 0'' ''\<newline>''
     = [''rchar: 100'', ''read_bytes: 4096'', ''write_bytes: 0'']"
  "Split ''rchar: 100'' '':'' = [''rchar'', '' 100'']"
  "Split ''read_bytes: 4096'' '':'' = [''read_bytes'', '' 4096'']"
  "Split ''write_bytes: 0'' '':'' = [''write_bytes'', '' 0'']"
  "TrimSpace ''rchar'' = ''rchar''"
  "TrimSpace ''read_bytes'' = ''read_bytes''"
  "TrimSpace ''write_bytes'' = ''write_bytes''"
  "TrimSpace '' 100'' = ''100''"
  "TrimSpace '' 4096'' = ''4096''"
  "TrimSpace '' 0'' = ''0''"
  by code_simp+

lemma ioLine_fields:
  assumes "Split line '':'' = [k, x]"
  shows "ioLine pf pid jobEntry reg line =
    (case pf (TrimSpace x) of
       None \<Rightarrow> reg
     | Some v \<Rightarrow>
         if TrimSpace k = ''read_bytes'' then
           reg\<lparr>ioReadBytesMetric := (ioReadBytesMetric reg)((pid, jobEntry) \<mapsto> v)\<rparr>
         else if TrimSpace k = ''write_bytes'' then
           reg\<lparr>ioWriteBytesMetric := (ioWriteBytesMetric reg)((pid, jobEntry) \<mapsto> v)\<rparr>
         else reg)"
  using assms by (simp add: ioLine_def Let_def nth_Cons' split: option.splits)

lemma ioLine_other_key:
  assumes "TrimSpace (hd (Split line '':'')) \<notin> {''read_bytes'', ''write_bytes''}"
  shows "ioLine pf pid jobEntry reg line = reg"
proof (cases "length (Split line '':'') = 2")
  case True
  then have "Split line '':'' ! 0 = hd (Split line '':'')"
    by (cases "Split line '':''") simp_all
  with True assms show ?thesis
    by (simp add: ioLine_def Let_def split: option.splits)
next
  case False
  then show ?thesis by (simp add: ioLine_def Let_def)
qed

lemma ioPid_spec_example:
  assumes "files h (''/proc/'' @ pid @ ''/io'')
      = Data ''rchar: 100\<newline>read_bytes: 4096\<newline>write_bytes: 0''"
    and "pf ''4096'' = Some 4096" and "pf ''0'' = Some 0"
  shows "ioPid pf h jobEntry reg pid =
    reg\<lparr>ioReadBytesMetric := (ioReadBytesMetric reg)((pid, jobEntry) \<mapsto> 4096),
        ioWriteBytesMetric := (ioWriteBytesMetric reg)((pid, jobEntry) \<mapsto> 0)\<rparr>"
proof -
  have 1: "ioLine pf pid jobEntry r ''rchar: 100'' = r" for r
    by (rule ioLine_other_key) (simp add: io_example_lines)
  have 2: "ioLine pf pid jobEntry r ''read_bytes: 4096''
      = r\<lparr>ioReadBytesMetric := (ioReadBytesMetric r)((pid, jobEntry) \<mapsto> 4096)\<rparr>" for r
    by (simp add: ioLine_fields [OF io_example_lines(3)] io_example_lines assms(2))
  have 3: "ioLine pf pid jobEntry r ''write_bytes: 0''
      = r\<lparr>ioWriteBytesMetric := (ioWriteBytesMetric r)((pid, jobEntry) \<mapsto> 0)\<rparr>" for r
    by (simp add: ioLine_fields [OF io_example_lines(4)] io_example_lines assms(3))
  show ?thesis
    using assms(1) by (simp add: ioPid_def io_example_lines(1) 1 2 3)
qed

text \<open>
  Claim C6. Of the lines of a process I/O record only those whose key is \<open>read_bytes\<close>
  or \<open>write_bytes\<close> are published: such a line, when its value parses, sets
  \<open>io_read_bytes\<close> (\<open>io_write_bytes\<close>) of the process to that value, and a line with any
  other key writes nothing. For the record \<open>rchar: 100\<close>, \<open>read_bytes: 4096\<close>,
  \<open>write_bytes: 0\<close> the pass over the process writes \<open>io_read_bytes = 4096\<close> and
  \<open>io_write_bytes = 0\<close> and nothing else.
\<close>

theorem only_read_and_write_bytes_published:
  assumes "files h (''/proc/'' @ pid @ ''/io'')
      = Data ''rchar: 100\<newline>read_bytes: 4096\<newline>write_bytes: 0''"
    and "pf ''4096'' = Some 4096" and "pf ''0'' = Some 0"
  shows "ioPid pf h jobEntry reg pid =
      reg\<lparr>ioReadBytesMetric := (ioReadBytesMetric reg)((pid, jobEntry) \<mapsto> 4096),
          ioWriteBytesMetric := (ioWriteBytesMetric reg)((pid, jobEntry) \<mapsto> 0)\<rparr>
    \<and> (\<forall>line p j r. TrimSpace (hd (Split line '':'')) \<notin> {''read_bytes'', ''write_bytes''}
          \<longrightarrow> ioLine pf p j r line = r)
    \<and> (\<forall>line k x v p j r. Split line '':'' = [k, x] \<longrightarrow> pf (TrimSpace x) = Some v \<longrightarrow>
          (TrimSpace k = ''read_bytes'' \<longrightarrow> ioLine pf p j r line
             = r\<lparr>ioReadBytesMetric := (ioReadBytesMetric r)((p, j) \<mapsto> v)\<rparr>)
          \<and> (TrimSpace k = ''write_bytes'' \<longrightarrow> ioLine pf p j r line
             = r\<lparr>ioWriteBytesMetric := (ioWriteBytesMetric r)((p, j) \<mapsto> v)\<rparr>))"
proof (intro conjI allI impI)
  show "ioPid pf h jobEntry reg pid =
      reg\<lparr>ioReadBytesMetric := (ioReadBytesMetric reg)((pid, jobEntry) \<mapsto> 4096),
          ioWriteBytesMetric := (ioWriteBytesMetric reg)((pid, jobEntry) \<mapsto> 0)\<rparr>"
    using assms by (rule ioPid_spec_example)
next
  fix line p j r
  assume "TrimSpace (hd (Split line '':'')) \<notin> {''read_bytes'', ''write_bytes''}"
  then show "ioLine pf p j r line = r" by (rule ioLine_other_key)
next
  fix line k x v p j r
  assume "Split line '':'' = [k, x]" "pf (TrimSpace x) = Some v" "TrimSpace k = ''read_bytes''"
  then show "ioLine pf p j r line = r\<lparr>ioReadBytesMetric := (ioReadBytesMetric r)((p, j) \<mapsto> v)\<rparr>"
    by (simp add: ioLine_fields)
next
  fix line k x v p j r
  assume "Split line '':'' = [k, x]" "pf (TrimSpace x) = Some v" "TrimSpace k = ''write_bytes''"
  then show "ioLine pf p j r line = r\<lparr>ioWriteBytesMetric := (ioWriteBytesMetric r)((p, j) \<mapsto> v)\<rparr>"
    by (simp add: ioLine_fields)
qed

lemma exampleHost_io:
  "files exampleHost (''/proc/'' @ ''1234'' @ ''/io'')
     = Data ''rchar: 100\<newline>read_bytes: 4096\<newline>write_bytes: 0''"
  by (simp add: exampleHost_def)

theorem only_read_and_write_bytes_published_witness:
  "ioPid parseDigits exampleHost ''job_42'' init ''1234'' =
      init\<lparr>ioReadBytesMetric := (ioReadBytesMetric init)((''1234'', ''job_42'') \<mapsto> 4096),
           ioWriteBytesMetric := (ioWriteBytesMetric init)((''1234'', ''job_42'') \<mapsto> 0)\<rparr>
    \<and> ioLine parseDigits ''1234'' ''job_42'' init ''rchar: 100'' = init"
proof -
  note t = only_read_and_write_bytes_published [where pf = parseDigits and h = exampleHost
      and pid = "''1234''" and jobEntry = "''job_42''" and reg = init,
      OF exampleHost_io parseDigits_values(3) parseDigits_values(4)]
  have "TrimSpace (hd (Split ''rchar: 100'' '':'')) \<notin> {''read_bytes'', ''write_bytes''}"
    by (simp add: io_example_lines)
  with t show ?thesis by blast
qed

section \<open>The job label across the two passes\<close>

lemma exampleHost_tree:
  "dirs exampleHost basePath = Some [''uid_1000'']"
  "dirs exampleHost (basePath @ ''/uid_1000'') = Some [''job_42'']"
  "files exampleHost (basePath @ ''/uid_1000/job_42/cgroup.procs'') = Data ''1234\<newline>''"
  by (simp_all add: exampleHost_def basePath_def)

lemma Fields_1234: "Fields ''1234\<newline>'' = [''1234'']"
  by code_simp

lemma exampleHost_ioPid:
  "ioPid parseDigits exampleHost ''job_42'' r ''1234'' =
     r\<lparr>ioReadBytesMetric := (ioReadBytesMetric r)((''1234'', ''job_42'') \<mapsto> 4096),
       ioWriteBytesMetric := (ioWriteBytesMetric r)((''1234'', ''job_42'') \<mapsto> 0)\<rparr>"
  by (rule ioPid_spec_example [OF exampleHost_io parseDigits_values(3) parseDigits_values(4)])

lemma exampleHost_io_pass:
  "collectIOMetrics parseDigits exampleHost r =
     r\<lparr>ioReadBytesMetric := (ioReadBytesMetric r)((''1234'', ''job_42'') \<mapsto> 4096),
       ioWriteBytesMetric := (ioWriteBytesMetric r)((''1234'', ''job_42'') \<mapsto> 0)\<rparr>"
proof -
  have job: "ioJob parseDigits exampleHost (basePath @ ''/uid_1000'') r' ''job_42'' =
     r'\<lparr>ioReadBytesMetric := (ioReadBytesMetric r')((''1234'', ''job_42'') \<mapsto> 4096),
        ioWriteBytesMetric := (ioWriteBytesMetric r')((''1234'', ''job_42'') \<mapsto> 0)\<rparr>" for r'
    by (simp add: ioJob_def HasPrefix_def exampleHost_tree Fields_1234 exampleHost_ioPid)
  have uid: "ioUid parseDigits exampleHost r' ''uid_1000'' =
     r'\<lparr>ioReadBytesMetric := (ioReadBytesMetric r')((''1234'', ''job_42'') \<mapsto> 4096),
        ioWriteBytesMetric := (ioWriteBytesMetric r')((''1234'', ''job_42'') \<mapsto> 0)\<rparr>" for r'
    by (simp add: ioUid_def HasPrefix_def exampleHost_tree job)
  show ?thesis
    by (simp add: collectIOMetrics_def exampleHost_tree uid)
qed

lemma exampleHost_gpu_pass:
  "collectGPUMetrics parseDigits exampleHost r =
     r\<lparr>gpuMemoryUsageMetric := (gpuMemoryUsageMetric r)((''0'', ''42'') \<mapsto> 536870912)\<rparr>"
proof -
  have "collectGPUMetrics parseDigits exampleHost r =
     r\<lparr>gpuMemoryUsageMetric :=
       (gpuMemoryUsageMetric r)((''0'', ''42'') \<mapsto> 512 * 1024 * 1024)\<rparr>"
    by (rule collectGPUMetrics_single_row [where pf = parseDigits,
          OF exampleHost_cmds(1) exampleHost_cmds(2) example_lines(4) example_fields(1)])
       (simp_all add: example_fields example_lines parseDigits_values exampleHost_job)
  then show ?thesis by simp
qed

text \<open>
  Claim C1 does not hold of the code. On the sample host process 1234 belongs to the job
  directory \<open>job_42\<close>. In one cycle from start-up the accelerator pass publishes its
  memory under \<open>job_id = "42"\<close> (\<open>getJobIDFromPID\<close> strips the \<open>job_\<close> prefix) and the
  I/O pass publishes its counters under \<open>job_id = "job_42"\<close> (the directory name as it
  is): the two job labels of the one process differ.
\<close>

theorem job_label_differs_between_passes:
  "gpuMemoryUsageMetric (tick parseDigits exampleHost init)
     = [(''none'', ''none'') \<mapsto> 0, (''0'', ''42'') \<mapsto> 536870912]
   \<and> ioReadBytesMetric (tick parseDigits exampleHost init)
     = [(''none'', ''none'') \<mapsto> 0, (''1234'', ''job_42'') \<mapsto> 4096]
   \<and> ioWriteBytesMetric (tick parseDigits exampleHost init)
     = [(''none'', ''none'') \<mapsto> 0, (''1234'', ''job_42'') \<mapsto> 0]"
  by (simp add: tick_def exampleHost_io_pass exampleHost_gpu_pass init_def)

end
